theory Spec2Isabelle
  imports Complex_Main
begin

section \<open>The voice-to-text screen of \<^verbatim>\<open>src/App.tsx\<close>\<close>

text \<open>
  The screen is one React function component. Its state is seven \<^verbatim>\<open>useState\<close> cells and
  two module-level variables (\<^verbatim>\<open>Whisper\<close>, \<^verbatim>\<open>sound\<close>); its operations are
  \<^verbatim>\<open>async\<close> functions and callbacks that call four native collaborators (audio capture,
  file store, speech-to-text, playback).

  The model is a shallow embedding:
  \<^item> a JavaScript value is a \<open>jsval\<close>; a thrown or rejected \<^verbatim>\<open>Error\<close> is a \<open>js_error\<close>;
  \<^item> the component state is the record \<open>state\<close>, and a setter is a record update;
  \<^item> an \<^verbatim>\<open>async\<close> function is cut at its \<^verbatim>\<open>await\<close>s (and a callback-taking call at its
    callback) into segments. A segment runs from a call or a resumption to the next suspension and
    returns an \<open>outcome\<close>: it returned, it is suspended on a collaborator (the \<open>task\<close> names
    the continuation and holds its live locals), or its promise is rejected because an error
    escaped the function;
  \<^item> what a collaborator answers is an input of the segment that receives the answer;
  \<^item> what the JavaScript engine and the platform supply (\<^verbatim>\<open>JSON.stringify\<close>, number printing,
    the texts of \<^verbatim>\<open>TypeError\<close>s, directory constants) is the record \<open>runtime\<close>.
\<close>

subsection \<open>JavaScript values\<close>

text \<open>
  Data values are those that cross the native bridge (no function-valued fields), together with
  promises in their three states. The first binding of a key in \<open>JObj\<close> is the property's value.
\<close>

datatype js_error = Error (message: string)

datatype jsval =
    JUndefined
  | JNull
  | JBool bool
  | JNum real
  | JStr string
  | JArr "jsval list"
  | JObj "(string \<times> jsval) list"
  | JResolved jsval
  | JRejected js_error
  | JPending

text \<open>
  The module-level \<^verbatim>\<open>Whisper\<close>. It is \<^verbatim>\<open>undefined\<close> at first (line 42), and afterwards
  whatever \<^verbatim>\<open>initWhisper\<close> resolved to: either a context object, whose \<^verbatim>\<open>transcribe\<close> is a
  function (its data fields are kept for \<^verbatim>\<open>JSON.stringify\<close>), or a plain data value, whose
  \<^verbatim>\<open>transcribe\<close> is not.
\<close>

datatype whisper = WData jsval | WContext "(string \<times> jsval) list"

record runtime =
  Platform_OS :: string
  RESULTS_GRANTED :: string
  DocumentDirectoryPath :: string
  MainBundlePath :: string
  ExternalDirectoryPath :: string
  JSON_stringify :: "jsval \<Rightarrow> string"
  Number_toString :: "real \<Rightarrow> string"
  String_toNumber :: "string \<Rightarrow> real option"
  Object_toString :: "jsval \<Rightarrow> js_error + string"
  not_a_function_message :: "string \<Rightarrow> string"
  nullish_property_message :: "jsval \<Rightarrow> string \<Rightarrow> string"

text \<open>\<^verbatim>\<open>!!v\<close>\<close>

fun truthy :: "jsval \<Rightarrow> bool" where
  "truthy JUndefined = False"
| "truthy JNull = False"
| "truthy (JBool b) = b"
| "truthy (JNum r) = (r \<noteq> 0)"
| "truthy (JStr s) = (s \<noteq> [])"
| "truthy _ = True"

text \<open>\<^verbatim>\<open>typeof v === 'object'\<close>\<close>

fun typeof_object :: "jsval \<Rightarrow> bool" where
  "typeof_object JUndefined = False"
| "typeof_object (JBool b) = False"
| "typeof_object (JNum r) = False"
| "typeof_object (JStr s) = False"
| "typeof_object _ = True"

text \<open>
  \<^verbatim>\<open>v.p\<close>, for the property names this program reads (\<^verbatim>\<open>promise\<close>, \<^verbatim>\<open>text\<close>,
  \<^verbatim>\<open>result\<close>, \<^verbatim>\<open>segments\<close>, \<^verbatim>\<open>length\<close>). Reading a property of \<^verbatim>\<open>undefined\<close> or
  \<^verbatim>\<open>null\<close> throws a \<^verbatim>\<open>TypeError\<close>: that is \<open>None\<close>. Only whether a length is positive
  is ever observed.
\<close>

fun js_get :: "jsval \<Rightarrow> string \<Rightarrow> jsval option" where
  "js_get JUndefined p = None"
| "js_get JNull p = None"
| "js_get (JObj kvs) p = Some (case map_of kvs p of Some v \<Rightarrow> v | None \<Rightarrow> JUndefined)"
| "js_get (JArr xs) p = Some (if p = ''length'' then JNum (real (length xs)) else JUndefined)"
| "js_get (JStr s) p = Some (if p = ''length'' then JNum (real (length s)) else JUndefined)"
| "js_get _ p = Some JUndefined"

text \<open>\<^verbatim>\<open>v && v.p\<close>: the left operand when it is falsy, the property otherwise.\<close>

definition and_get :: "jsval \<Rightarrow> string \<Rightarrow> jsval" where
  "and_get v p = (if truthy v then (case js_get v p of Some x \<Rightarrow> x | None \<Rightarrow> v) else v)"

text \<open>
  \<^verbatim>\<open>await v\<close>: a promise is followed to its settlement (a promise resolved with a promise
  adopts it), any other value is itself. \<open>None\<close>: the promise never settles.
\<close>

fun await_value :: "jsval \<Rightarrow> (js_error + jsval) option" where
  "await_value (JResolved v) = await_value v"
| "await_value (JRejected e) = Some (Inl e)"
| "await_value JPending = None"
| "await_value v = Some (Inr v)"

text \<open>
  \<^verbatim>\<open>String(v)\<close>. Primitives are converted here; the conversion of an object, an array or a
  promise (which can throw) is the engine's.
\<close>

fun to_string :: "runtime \<Rightarrow> jsval \<Rightarrow> js_error + string" where
  "to_string rt JUndefined = Inr ''undefined''"
| "to_string rt JNull = Inr ''null''"
| "to_string rt (JBool b) = Inr (if b then ''true'' else ''false'')"
| "to_string rt (JNum r) = Inr (Number_toString rt r)"
| "to_string rt (JStr s) = Inr s"
| "to_string rt v = Object_toString rt v"

text \<open>\<^verbatim>\<open>v > 0\<close>: the operand is converted to a number (\<^verbatim>\<open>NaN\<close> compares false).\<close>

fun greater_than_zero :: "runtime \<Rightarrow> jsval \<Rightarrow> js_error + bool" where
  "greater_than_zero rt JUndefined = Inr False"
| "greater_than_zero rt JNull = Inr False"
| "greater_than_zero rt (JBool b) = Inr b"
| "greater_than_zero rt (JNum r) = Inr (0 < r)"
| "greater_than_zero rt (JStr s) =
     Inr (case String_toNumber rt s of Some r \<Rightarrow> 0 < r | None \<Rightarrow> False)"
| "greater_than_zero rt v =
     (case Object_toString rt v of
        Inl e \<Rightarrow> Inl e
      | Inr s \<Rightarrow> Inr (case String_toNumber rt s of Some r \<Rightarrow> 0 < r | None \<Rightarrow> False))"

text \<open>\<^verbatim>\<open>xs.map(segment => segment.text)\<close>: the first element that is \<^verbatim>\<open>undefined\<close> or
  \<^verbatim>\<open>null\<close> throws.\<close>

fun map_text :: "runtime \<Rightarrow> jsval list \<Rightarrow> js_error + jsval list" where
  "map_text rt [] = Inr []"
| "map_text rt (x # xs) =
     (case js_get x ''text'' of
        None \<Rightarrow> Inl (Error (nullish_property_message rt x ''text''))
      | Some t \<Rightarrow> (case map_text rt xs of Inl e \<Rightarrow> Inl e | Inr ts \<Rightarrow> Inr (t # ts)))"

text \<open>\<^verbatim>\<open>xs.join(sep)\<close>: an \<^verbatim>\<open>undefined\<close> or \<^verbatim>\<open>null\<close> element contributes the empty string.\<close>

fun join_element :: "runtime \<Rightarrow> jsval \<Rightarrow> js_error + string" where
  "join_element rt JUndefined = Inr []"
| "join_element rt JNull = Inr []"
| "join_element rt v = to_string rt v"

fun join :: "runtime \<Rightarrow> string \<Rightarrow> jsval list \<Rightarrow> js_error + string" where
  "join rt sep [] = Inr []"
| "join rt sep [x] = join_element rt x"
| "join rt sep (x # y # ys) =
     (case join_element rt x of
        Inl e \<Rightarrow> Inl e
      | Inr s \<Rightarrow> (case join rt sep (y # ys) of Inl e \<Rightarrow> Inl e | Inr r \<Rightarrow> Inr (s @ sep @ r)))"

subsection \<open>Component state\<close>

text \<open>Lines 42--53. \<open>sound\<close> is the playback instance, named by the file it was built for.\<close>

record state =
  isRecording :: bool
  transcription :: jsval
  isProcessing :: bool
  audioFile :: "string option"
  isPlaying :: bool
  audioDuration :: real
  debugLogs :: "string list"
  Whisper :: whisper
  sound :: "string option"

definition initial_state :: state where
  "initial_state =
     \<lparr>isRecording = False, transcription = JStr [], isProcessing = False, audioFile = None,
      isPlaying = False, audioDuration = 0, debugLogs = [], Whisper = WData JUndefined,
      sound = None\<rparr>"

text \<open>The continuations: one per \<^verbatim>\<open>await\<close> or callback of the source.\<close>

datatype task =
    AwaitPermission
  | AwaitRequestMicrophonePermission
  | AwaitExists
  | AwaitCopyFileAssets
  | AwaitCopyFile
  | AwaitInitWhisper
  | AwaitAudioStop
  | AwaitMoveFile string
  | AwaitStat string
  | AwaitTranscribe string
  | AwaitPromise jsval
  | AwaitUnlink
  | AwaitSoundLoad
  | AwaitPlayEnd
  | AwaitSoundStop

datatype outcome = Returned state | Suspended task state | Rejected js_error state

fun state_of :: "outcome \<Rightarrow> state" where
  "state_of (Returned s) = s"
| "state_of (Suspended k s) = s"
| "state_of (Rejected e s) = s"

text \<open>Lines 68--70.\<close>

definition addDebugLog :: "string \<Rightarrow> state \<Rightarrow> state" where
  "addDebugLog msg s = s\<lparr>debugLogs := debugLogs s @ [msg]\<rparr>"

text \<open>\<^verbatim>\<open>!Whisper\<close> is \<open>\<not> whisper_truthy\<close>; \<^verbatim>\<open>if (audioFile)\<close> is \<open>has_asset\<close>.\<close>

fun whisper_truthy :: "whisper \<Rightarrow> bool" where
  "whisper_truthy (WData v) = truthy v"
| "whisper_truthy (WContext fs) = True"

fun whisper_value :: "whisper \<Rightarrow> jsval" where
  "whisper_value (WData v) = v"
| "whisper_value (WContext fs) = JObj fs"

definition has_asset :: "state \<Rightarrow> bool" where
  "has_asset s = (case audioFile s of None \<Rightarrow> False | Some p \<Rightarrow> p \<noteq> [])"

subsection \<open>\<^verbatim>\<open>processAudio\<close> (lines 177--224)\<close>

text \<open>The \<^verbatim>\<open>catch\<close> block followed by the \<^verbatim>\<open>finally\<close> block (lines 218--223).\<close>

definition processAudio_catch :: "js_error \<Rightarrow> state \<Rightarrow> outcome" where
  "processAudio_catch error s =
     (let s1 = addDebugLog (''Error processing audio: '' @ message error) s;
          s2 = s1\<lparr>transcription := JStr (''Error processing audio: '' @ message error)\<rparr>
      in Returned (s2\<lparr>isProcessing := False\<rparr>))"

text \<open>A \<^verbatim>\<open>setTranscription\<close> that ends the \<^verbatim>\<open>try\<close> block, followed by \<^verbatim>\<open>finally\<close>.\<close>

definition processAudio_done :: "jsval \<Rightarrow> state \<Rightarrow> outcome" where
  "processAudio_done v s = Returned (s\<lparr>transcription := v, isProcessing := False\<rparr>)"

text \<open>
  From the call to \<^verbatim>\<open>await Whisper.transcribe(audio, options)\<close> (lines 178--186). Calling
  \<^verbatim>\<open>transcribe\<close> on a value that has no such function throws a \<^verbatim>\<open>TypeError\<close> inside
  the \<^verbatim>\<open>try\<close>.
\<close>

definition processAudio :: "runtime \<Rightarrow> string \<Rightarrow> state \<Rightarrow> outcome" where
  "processAudio rt audio s =
     (let s1 = addDebugLog ''Processing audio...'' (s\<lparr>isProcessing := True\<rparr>) in
      if \<not> whisper_truthy (Whisper s1) then
        processAudio_catch (Error ''Whisper not initialized'') s1
      else
        let s2 = addDebugLog ''Starting transcription...'' s1 in
        (case Whisper s2 of
           WContext fs \<Rightarrow> Suspended (AwaitTranscribe audio) s2
         | WData v \<Rightarrow>
             processAudio_catch (Error (not_a_function_message rt ''Whisper.transcribe'')) s2))"

text \<open>
  From the resumption of \<^verbatim>\<open>await Whisper.transcribe\<close> to \<^verbatim>\<open>await result.promise\<close> or to the
  end (lines 186--192, 212--223). \<open>Inl\<close>: the call threw or its promise was rejected.
\<close>

definition processAudio_transcribed :: "runtime \<Rightarrow> js_error + jsval \<Rightarrow> state \<Rightarrow> outcome" where
  "processAudio_transcribed rt reply s =
     (case reply of
        Inl error \<Rightarrow> processAudio_catch error s
      | Inr result \<Rightarrow>
          let s1 = addDebugLog (''Raw transcription result: '' @ JSON_stringify rt result) s in
          if truthy result \<and> typeof_object result \<and> truthy (and_get result ''promise'') then
            Suspended (AwaitPromise (and_get result ''promise'')) s1
          else if truthy (and_get result ''text'') then
            processAudio_done (and_get result ''text'') s1
          else
            processAudio_catch (Error ''Unexpected transcription result format'') s1)"

text \<open>Lines 205--208: \<^verbatim>\<open>segments.map(segment => segment.text).join(' ')\<close>. A value that is not
  an array has no function \<^verbatim>\<open>map\<close>.\<close>

definition segments_text :: "runtime \<Rightarrow> jsval \<Rightarrow> js_error + string" where
  "segments_text rt segments =
     (case segments of
        JArr xs \<Rightarrow> (case map_text rt xs of Inl e \<Rightarrow> Inl e | Inr ts \<Rightarrow> join rt '' '' ts)
      | _ \<Rightarrow> Inl (Error (not_a_function_message rt ''transcriptionResult.segments.map'')))"

text \<open>From the resumption of \<^verbatim>\<open>await result.promise\<close> to the end (lines 192--223).\<close>

definition processAudio_resolved :: "runtime \<Rightarrow> js_error + jsval \<Rightarrow> state \<Rightarrow> outcome" where
  "processAudio_resolved rt reply s =
     (case reply of
        Inl error \<Rightarrow> processAudio_catch error s
      | Inr transcriptionResult \<Rightarrow>
          let s1 = addDebugLog
                     (''Resolved transcription result: '' @ JSON_stringify rt transcriptionResult) s
          in
          if truthy (and_get transcriptionResult ''result'') then
            processAudio_done (and_get transcriptionResult ''result'') s1
          else if truthy (and_get transcriptionResult ''segments'') then
            (case greater_than_zero rt
                    (and_get (and_get transcriptionResult ''segments'') ''length'') of
               Inl e \<Rightarrow> processAudio_catch e s1
             | Inr True \<Rightarrow>
                 (case segments_text rt (and_get transcriptionResult ''segments'') of
                    Inl e \<Rightarrow> processAudio_catch e s1
                  | Inr fullText \<Rightarrow> processAudio_done (JStr fullText) s1)
             | Inr False \<Rightarrow>
                 processAudio_catch (Error ''No transcription text in resolved result'') s1)
          else
            processAudio_catch (Error ''No transcription text in resolved result'') s1)"

subsection \<open>Startup (lines 56--147)\<close>

text \<open>
  Lines 91--111, from the resumption of \<^verbatim>\<open>await PermissionsAndroid.request\<close>. The function
  catches every failure, so it always returns.
\<close>

definition requestMicrophonePermission_settled :: "runtime \<Rightarrow> js_error + string \<Rightarrow> state \<Rightarrow> state"
  where
  "requestMicrophonePermission_settled rt reply s =
     (case reply of
        Inl err \<Rightarrow> addDebugLog (''Error requesting microphone permission: '' @ message err) s
      | Inr granted \<Rightarrow>
          if granted \<noteq> RESULTS_GRANTED rt then addDebugLog ''Microphone permission denied'' s
          else addDebugLog ''Microphone permission granted'' s)"

text \<open>
  Lines 78--87: \<^verbatim>\<open>AudioRecord.init(options)\<close> and the log entry. The call is outside any
  \<^verbatim>\<open>try\<close>; \<open>thrown\<close> is what it throws, if it does.
\<close>

definition setupAudioRecord_init :: "js_error option \<Rightarrow> state \<Rightarrow> outcome" where
  "setupAudioRecord_init thrown s =
     (case thrown of
        Some e \<Rightarrow> Rejected e s
      | None \<Rightarrow> Returned (addDebugLog ''Audio Record initialized'' s))"

text \<open>Lines 73--76.\<close>

definition setupAudioRecord :: "runtime \<Rightarrow> js_error option \<Rightarrow> state \<Rightarrow> outcome" where
  "setupAudioRecord rt thrown s =
     (if Platform_OS rt = ''android'' then Suspended AwaitPermission s
      else setupAudioRecord_init thrown s)"

text \<open>
  Line 75 awaits the promise of \<^verbatim>\<open>requestMicrophonePermission\<close>. When that function has
  returned, \<^verbatim>\<open>setupAudioRecord\<close> becomes resumable and goes on in a later turn of its own
  (\<open>setupAudioRecord_init\<close>): other continuations can run in between.
\<close>

definition requestMicrophonePermission_returned ::
  "runtime \<Rightarrow> js_error + string \<Rightarrow> state \<Rightarrow> outcome" where
  "requestMicrophonePermission_returned rt reply s =
     Suspended AwaitRequestMicrophonePermission (requestMicrophonePermission_settled rt reply s)"

text \<open>The \<^verbatim>\<open>catch\<close> block of \<^verbatim>\<open>initWhispers\<close> (lines 144--146).\<close>

definition initWhispers_catch :: "js_error \<Rightarrow> state \<Rightarrow> outcome" where
  "initWhispers_catch error s =
     Returned (addDebugLog (''Failed to initialize Whisper: '' @ message error) s)"

definition modelPath :: "runtime \<Rightarrow> string" where
  "modelPath rt = DocumentDirectoryPath rt @ ''/'' @ ''ggml-base.bin''"

text \<open>Lines 115--119.\<close>

definition initWhispers :: "state \<Rightarrow> outcome" where
  "initWhispers s = Suspended AwaitExists (addDebugLog ''Initializing Whisper...'' s)"

text \<open>Lines 119--137, from the resumption of \<^verbatim>\<open>await RNFS.exists(modelPath)\<close>.\<close>

definition initWhispers_exists :: "runtime \<Rightarrow> js_error + bool \<Rightarrow> state \<Rightarrow> outcome" where
  "initWhispers_exists rt reply s =
     (case reply of
        Inl error \<Rightarrow> initWhispers_catch error s
      | Inr modelExists \<Rightarrow>
          let s1 = addDebugLog
                     (''Model exists: '' @ (if modelExists then ''true'' else ''false'')) s;
              s2 = addDebugLog (''Model path: '' @ modelPath rt) s1
          in
          if \<not> modelExists then
            (if Platform_OS rt = ''android'' then Suspended AwaitCopyFileAssets s2
             else Suspended AwaitCopyFile s2)
          else Suspended AwaitInitWhisper s2)"

text \<open>Lines 126--137, from the resumption of either copy.\<close>

definition initWhispers_copied :: "js_error option \<Rightarrow> state \<Rightarrow> outcome" where
  "initWhispers_copied reply s =
     (case reply of
        Some error \<Rightarrow> initWhispers_catch error s
      | None \<Rightarrow> Suspended AwaitInitWhisper (addDebugLog ''Model file copied'' s))"

text \<open>
  Lines 135--146, from the resumption of \<^verbatim>\<open>await initWhisper(...)\<close>. The assignment to
  \<^verbatim>\<open>Whisper\<close> (line 135) comes before the check of line 139.
\<close>

definition initWhispers_initialized :: "runtime \<Rightarrow> js_error + whisper \<Rightarrow> state \<Rightarrow> outcome" where
  "initWhispers_initialized rt reply s =
     (case reply of
        Inl error \<Rightarrow> initWhispers_catch error s
      | Inr w \<Rightarrow>
          let s1 = s\<lparr>Whisper := w\<rparr> in
          if \<not> whisper_truthy (Whisper s1) \<or> (case Whisper s1 of WData v \<Rightarrow> True | WContext fs \<Rightarrow> False)
          then initWhispers_catch (Error ''Whisper not properly initialized'') s1
          else
            let s2 = addDebugLog
                       (''Whisper object: '' @ JSON_stringify rt (whisper_value (Whisper s1))) s1
            in Returned (addDebugLog ''Whisper initialized successfully'' s2))"

subsection \<open>Recording (lines 150--174)\<close>

text \<open>
  Lines 150--154. \<^verbatim>\<open>AudioRecord.start()\<close> is outside any \<^verbatim>\<open>try\<close>; \<open>thrown\<close> is what it
  throws, if it does.
\<close>

definition startRecording :: "js_error option \<Rightarrow> state \<Rightarrow> outcome" where
  "startRecording thrown s =
     (let s1 = s\<lparr>isRecording := True\<rparr> in
      case thrown of
        Some e \<Rightarrow> Rejected e s1
      | None \<Rightarrow> Returned (addDebugLog ''Started recording'' s1))"

text \<open>Lines 157--159.\<close>

definition stopRecording :: "state \<Rightarrow> outcome" where
  "stopRecording s = Suspended AwaitAudioStop (s\<lparr>isRecording := False\<rparr>)"

text \<open>
  Lines 159--164, from the resumption of \<^verbatim>\<open>await AudioRecord.stop()\<close>, which is outside the
  \<^verbatim>\<open>try\<close>. \<open>now\<close> is \<^verbatim>\<open>Date.now()\<close>.
\<close>

definition stopRecording_stopped :: "runtime \<Rightarrow> js_error + string \<Rightarrow> real \<Rightarrow> state \<Rightarrow> outcome"
  where
  "stopRecording_stopped rt reply now s =
     (case reply of
        Inl e \<Rightarrow> Rejected e s
      | Inr audio \<Rightarrow>
          let s1 = addDebugLog ''Stopped recording'' s;
              fileName = ''recording_'' @ Number_toString rt now @ ''.wav'';
              filePath = ExternalDirectoryPath rt @ ''/'' @ fileName
          in Suspended (AwaitMoveFile filePath) s1)"

definition stopRecording_catch :: "js_error \<Rightarrow> state \<Rightarrow> outcome" where
  "stopRecording_catch error s =
     Returned (addDebugLog (''Error saving audio file: '' @ message error) s)"

text \<open>Lines 164--168, from the resumption of \<^verbatim>\<open>await RNFS.moveFile(audio, filePath)\<close>.\<close>

definition stopRecording_moved :: "string \<Rightarrow> js_error option \<Rightarrow> state \<Rightarrow> outcome" where
  "stopRecording_moved filePath reply s =
     (case reply of
        Some error \<Rightarrow> stopRecording_catch error s
      | None \<Rightarrow>
          let s1 = s\<lparr>audioFile := Some filePath\<rparr>;
              s2 = addDebugLog (''Audio file saved: '' @ filePath) s1
          in Suspended (AwaitStat filePath) s2)"

text \<open>
  Lines 167--173, from the resumption of \<^verbatim>\<open>await RNFS.stat(filePath)\<close>; \<open>Inr statSize\<close> is the
  \<^verbatim>\<open>size\<close> of the answer. \<^verbatim>\<open>processAudio(filePath)\<close> is called and not awaited: its first
  segment runs here, and what is left of it goes on by itself.
\<close>

definition stopRecording_stat :: "runtime \<Rightarrow> string \<Rightarrow> js_error + real \<Rightarrow> state \<Rightarrow> outcome" where
  "stopRecording_stat rt filePath reply s =
     (case reply of
        Inl error \<Rightarrow> stopRecording_catch error s
      | Inr statSize \<Rightarrow>
          let s1 = addDebugLog (''Audio file size: '' @ Number_toString rt statSize @ '' bytes'') s
          in processAudio rt filePath s1)"

subsection \<open>Playback (lines 227--255)\<close>

text \<open>Lines 227--229: the instance is built and stored; its load callback is pending.\<close>

definition playAudio :: "state \<Rightarrow> outcome" where
  "playAudio s =
     (if has_asset s then Suspended AwaitSoundLoad (s\<lparr>sound := audioFile s\<rparr>) else Returned s)"

text \<open>Lines 229--243, the load callback; \<open>duration\<close> is \<^verbatim>\<open>sound.getDuration()\<close>.\<close>

definition playAudio_loaded :: "js_error option \<Rightarrow> real \<Rightarrow> state \<Rightarrow> outcome" where
  "playAudio_loaded error duration s =
     (case error of
        Some e \<Rightarrow> Returned (addDebugLog (''Failed to load the sound: '' @ message e) s)
      | None \<Rightarrow> Suspended AwaitPlayEnd (s\<lparr>audioDuration := duration, isPlaying := True\<rparr>))"

text \<open>Lines 236--243, the completion callback of \<^verbatim>\<open>sound.play\<close>.\<close>

definition playAudio_ended :: "bool \<Rightarrow> state \<Rightarrow> outcome" where
  "playAudio_ended success s =
     (if success then
        Returned ((addDebugLog ''Successfully finished playing'' s)\<lparr>isPlaying := False\<rparr>)
      else Returned (addDebugLog ''Playback failed due to audio decoding errors'' s))"

text \<open>Lines 249--255, and the callback of \<^verbatim>\<open>sound.stop\<close>.\<close>

definition stopAudio :: "state \<Rightarrow> outcome" where
  "stopAudio s = (if sound s \<noteq> None then Suspended AwaitSoundStop s else Returned s)"

definition stopAudio_stopped :: "state \<Rightarrow> outcome" where
  "stopAudio_stopped s = Returned (s\<lparr>isPlaying := False\<rparr>)"

subsection \<open>Deletion (lines 258--270)\<close>

definition deleteAudio :: "state \<Rightarrow> outcome" where
  "deleteAudio s = (if has_asset s then Suspended AwaitUnlink s else Returned s)"

text \<open>From the resumption of \<^verbatim>\<open>await RNFS.unlink(audioFile)\<close>.\<close>

definition deleteAudio_unlinked :: "js_error option \<Rightarrow> state \<Rightarrow> outcome" where
  "deleteAudio_unlinked reply s =
     (case reply of
        None \<Rightarrow>
          let s1 = s\<lparr>audioFile := None\<rparr>;
              s2 = s1\<lparr>transcription := JStr []\<rparr>;
              s3 = s2\<lparr>audioDuration := 0\<rparr>
          in Returned (addDebugLog ''Audio file deleted successfully'' s3)
      | Some error \<Rightarrow> Returned (addDebugLog (''Error deleting audio file: '' @ message error) s))"

subsection \<open>The running component\<close>

text \<open>
  Between two segments the user can press a button and any suspended call can settle. The running
  component is its state, the suspended continuations and the rejections that escaped their
  function (nothing awaits the promise of an event handler or of an effect, so such a rejection is
  unhandled).
\<close>

record machine =
  ui :: state
  pending :: "task list"
  unhandled :: "js_error list"

definition absorb :: "outcome \<Rightarrow> machine \<Rightarrow> machine" where
  "absorb out m =
     (case out of
        Returned s \<Rightarrow> m\<lparr>ui := s\<rparr>
      | Suspended k s \<Rightarrow> m\<lparr>ui := s, pending := pending m @ [k]\<rparr>
      | Rejected e s \<Rightarrow> m\<lparr>ui := s, unhandled := unhandled m @ [e]\<rparr>)"

text \<open>
  What a collaborator hands to a continuation. A call made outside any \<^verbatim>\<open>await\<close> in the segment
  that the answer starts (\<^verbatim>\<open>AudioRecord.init\<close>, \<^verbatim>\<open>Date.now\<close>, \<^verbatim>\<open>sound.getDuration\<close>) has its
  result in the same reply.
\<close>

datatype reply =
    PermissionReply "js_error + string"
  | PermissionReturnedReply "js_error option"
  | ExistsReply "js_error + bool"
  | CopyReply "js_error option"
  | InitWhisperReply "js_error + whisper"
  | AudioStopReply "js_error + string" real
  | MoveFileReply "js_error option"
  | StatReply "js_error + real"
  | TranscribeReply "js_error + jsval"
  | PromiseSettled
  | UnlinkReply "js_error option"
  | SoundLoadReply "js_error option" real
  | PlayEndReply bool
  | SoundStopReply

definition resume :: "runtime \<Rightarrow> task \<Rightarrow> reply \<Rightarrow> state \<Rightarrow> outcome option" where
  "resume rt k reply s =
     (case k of
        AwaitPermission \<Rightarrow>
          (case reply of
             PermissionReply r \<Rightarrow> Some (requestMicrophonePermission_returned rt r s)
           | _ \<Rightarrow> None)
      | AwaitRequestMicrophonePermission \<Rightarrow>
          (case reply of
             PermissionReturnedReply thrown \<Rightarrow> Some (setupAudioRecord_init thrown s)
           | _ \<Rightarrow> None)
      | AwaitExists \<Rightarrow>
          (case reply of ExistsReply r \<Rightarrow> Some (initWhispers_exists rt r s) | _ \<Rightarrow> None)
      | AwaitCopyFileAssets \<Rightarrow>
          (case reply of CopyReply r \<Rightarrow> Some (initWhispers_copied r s) | _ \<Rightarrow> None)
      | AwaitCopyFile \<Rightarrow>
          (case reply of CopyReply r \<Rightarrow> Some (initWhispers_copied r s) | _ \<Rightarrow> None)
      | AwaitInitWhisper \<Rightarrow>
          (case reply of
             InitWhisperReply r \<Rightarrow> Some (initWhispers_initialized rt r s)
           | _ \<Rightarrow> None)
      | AwaitAudioStop \<Rightarrow>
          (case reply of
             AudioStopReply r now \<Rightarrow> Some (stopRecording_stopped rt r now s)
           | _ \<Rightarrow> None)
      | AwaitMoveFile filePath \<Rightarrow>
          (case reply of
             MoveFileReply r \<Rightarrow> Some (stopRecording_moved filePath r s)
           | _ \<Rightarrow> None)
      | AwaitStat filePath \<Rightarrow>
          (case reply of
             StatReply r \<Rightarrow> Some (stopRecording_stat rt filePath r s)
           | _ \<Rightarrow> None)
      | AwaitTranscribe audio \<Rightarrow>
          (case reply of
             TranscribeReply r \<Rightarrow> Some (processAudio_transcribed rt r s)
           | _ \<Rightarrow> None)
      | AwaitPromise p \<Rightarrow>
          (case reply of
             PromiseSettled \<Rightarrow>
               (case await_value p of
                  None \<Rightarrow> None
                | Some r \<Rightarrow> Some (processAudio_resolved rt r s))
           | _ \<Rightarrow> None)
      | AwaitUnlink \<Rightarrow>
          (case reply of UnlinkReply r \<Rightarrow> Some (deleteAudio_unlinked r s) | _ \<Rightarrow> None)
      | AwaitSoundLoad \<Rightarrow>
          (case reply of
             SoundLoadReply error duration \<Rightarrow> Some (playAudio_loaded error duration s)
           | _ \<Rightarrow> None)
      | AwaitPlayEnd \<Rightarrow>
          (case reply of PlayEndReply success \<Rightarrow> Some (playAudio_ended success s) | _ \<Rightarrow> None)
      | AwaitSoundStop \<Rightarrow>
          (case reply of SoundStopReply \<Rightarrow> Some (stopAudio_stopped s) | _ \<Rightarrow> None))"

text \<open>
  The buttons are those of the render (lines 281--299): one button starts or stops recording
  according to \<^verbatim>\<open>isRecording\<close>; play, stop playing and delete exist while \<^verbatim>\<open>audioFile\<close> is
  set, play or stop playing according to \<^verbatim>\<open>isPlaying\<close>. \<open>Settle n r\<close> resumes the \<open>n\<close>-th
  suspended continuation with \<open>r\<close>. \<open>None\<close>: the event cannot happen in this state.
\<close>

datatype event =
    PressStart "js_error option"
  | PressStop
  | PressPlay
  | PressStopAudio
  | PressDelete
  | Settle nat reply

fun step :: "runtime \<Rightarrow> event \<Rightarrow> machine \<Rightarrow> machine option" where
  "step rt (PressStart thrown) m =
     (if \<not> isRecording (ui m) then Some (absorb (startRecording thrown (ui m)) m) else None)"
| "step rt PressStop m =
     (if isRecording (ui m) then Some (absorb (stopRecording (ui m)) m) else None)"
| "step rt PressPlay m =
     (if has_asset (ui m) \<and> \<not> isPlaying (ui m) then Some (absorb (playAudio (ui m)) m)
      else None)"
| "step rt PressStopAudio m =
     (if has_asset (ui m) \<and> isPlaying (ui m) then Some (absorb (stopAudio (ui m)) m) else None)"
| "step rt PressDelete m =
     (if has_asset (ui m) then Some (absorb (deleteAudio (ui m)) m) else None)"
| "step rt (Settle n r) m =
     (if n < length (pending m) then
        (case resume rt (pending m ! n) r (ui m) of
           None \<Rightarrow> None
         | Some out \<Rightarrow>
             Some (absorb out (m\<lparr>pending := take n (pending m) @ drop (Suc n) (pending m)\<rparr>)))
      else None)"

fun exec :: "runtime \<Rightarrow> event list \<Rightarrow> machine \<Rightarrow> machine option" where
  "exec rt [] m = Some m"
| "exec rt (ev # evs) m = (case step rt ev m of None \<Rightarrow> None | Some m' \<Rightarrow> exec rt evs m')"

text \<open>The effect of lines 56--58: \<^verbatim>\<open>setupAudioRecord(); initWhispers();\<close> on the first render.\<close>

definition mount :: "runtime \<Rightarrow> js_error option \<Rightarrow> machine" where
  "mount rt thrown =
     (let m0 = \<lparr>ui = initial_state, pending = [], unhandled = []\<rparr>;
          m1 = absorb (setupAudioRecord rt thrown (ui m0)) m0
      in absorb (initWhispers (ui m1)) m1)"

subsection \<open>Operations run without interleaving\<close>

text \<open>
  \<^verbatim>\<open>processAudio\<close> from the point where \<^verbatim>\<open>await Whisper.transcribe\<close> yields \<open>result\<close> to its
  end: the transcript it leaves. \<open>None\<close>: \<^verbatim>\<open>result.promise\<close> never settles.
\<close>

definition processAudio_transcript :: "runtime \<Rightarrow> jsval \<Rightarrow> state \<Rightarrow> jsval option" where
  "processAudio_transcript rt result s =
     (case processAudio_transcribed rt (Inr result) s of
        Suspended (AwaitPromise p) s1 \<Rightarrow>
          (case await_value p of
             None \<Rightarrow> None
           | Some r \<Rightarrow> Some (transcription (state_of (processAudio_resolved rt r s1))))
      | out \<Rightarrow> Some (transcription (state_of out)))"

text \<open>\<^verbatim>\<open>deleteAudio\<close> from the press to the end, \<open>reply\<close> being the answer of \<^verbatim>\<open>RNFS.unlink\<close>.\<close>

definition deleteAudio_complete :: "js_error option \<Rightarrow> state \<Rightarrow> outcome" where
  "deleteAudio_complete reply s =
     (case deleteAudio s of
        Suspended AwaitUnlink s1 \<Rightarrow> deleteAudio_unlinked reply s1
      | out \<Rightarrow> out)"

subsection \<open>A runtime and states for evaluation\<close>

text \<open>
  An android runtime on which the model is evaluated at concrete inputs. The texts it gives for
  engine-made strings are stand-ins: no statement below depends on them.
\<close>

definition example_runtime :: runtime where
  "example_runtime =
     \<lparr>Platform_OS = ''android'', RESULTS_GRANTED = ''granted'',
      DocumentDirectoryPath = ''/data/files'', MainBundlePath = ''undefined'',
      ExternalDirectoryPath = ''/storage/files'',
      JSON_stringify = (\<lambda>v. ''{}''), Number_toString = (\<lambda>r. ''0''),
      String_toNumber = (\<lambda>s. None), Object_toString = (\<lambda>v. Inr ''[object Object]''),
      not_a_function_message = (\<lambda>callee. callee @ '' is not a function''),
      nullish_property_message = (\<lambda>v p. ''Cannot read property '' @ p)\<rparr>"

definition example_state :: state where
  "example_state =
     initial_state\<lparr>transcription := JStr ''hello'',
       audioFile := Some ''/storage/files/recording_0.wav'', audioDuration := 12.5\<rparr>"

subsection \<open>Notions used in the statements\<close>

text \<open>Line 190: the result is an object with a truthy \<^verbatim>\<open>promise\<close>.\<close>

definition promise_shaped :: "jsval \<Rightarrow> bool" where
  "promise_shaped result \<longleftrightarrow>
     truthy result \<and> typeof_object result \<and> truthy (and_get result ''promise'')"

text \<open>\<^verbatim>\<open>Array.isArray(v)\<close>\<close>

definition is_array :: "jsval \<Rightarrow> bool" where
  "is_array v = (case v of JArr xs \<Rightarrow> True | _ \<Rightarrow> False)"

text \<open>Strings joined in order with single spaces.\<close>

fun spaced :: "string list \<Rightarrow> string" where
  "spaced [] = []"
| "spaced [t] = t"
| "spaced (t # u # us) = t @ '' '' @ spaced (u # us)"

text \<open>
  The continuations of \<^verbatim>\<open>processAudio\<close>, and those of \<^verbatim>\<open>stopRecording\<close> and
  \<^verbatim>\<open>processAudio\<close> together: a stop-and-save or a transcription is in flight.
\<close>

definition transcribing :: "task \<Rightarrow> bool" where
  "transcribing k = (case k of AwaitTranscribe a \<Rightarrow> True | AwaitPromise p \<Rightarrow> True | _ \<Rightarrow> False)"

definition in_flight :: "task \<Rightarrow> bool" where
  "in_flight k =
     (case k of
        AwaitAudioStop \<Rightarrow> True
      | AwaitMoveFile f \<Rightarrow> True
      | AwaitStat f \<Rightarrow> True
      | _ \<Rightarrow> transcribing k)"

text \<open>Every start press of the run happens while nothing is in flight.\<close>

fun start_when_idle :: "runtime \<Rightarrow> event list \<Rightarrow> machine \<Rightarrow> bool" where
  "start_when_idle rt [] m = True"
| "start_when_idle rt (ev # evs) m =
     ((case ev of PressStart thrown \<Rightarrow> \<not> list_ex in_flight (pending m) | _ \<Rightarrow> True) \<and>
      (case step rt ev m of None \<Rightarrow> True | Some m' \<Rightarrow> start_when_idle rt evs m'))"

text \<open>
  The steps that append to the log whenever they happen: a start press whose capture start does
  not throw, and every resumption other than that of a failed capture stop, of a successful
  sound load, of the stop callback of the player, and of \<^verbatim>\<open>setupAudioRecord\<close> when
  \<^verbatim>\<open>AudioRecord.init\<close> throws. Every other step (these four resumptions, a start press whose
  capture start throws, and the presses of stop, play, stop playing and delete) appends nothing.
\<close>

definition reply_logs :: "reply \<Rightarrow> bool" where
  "reply_logs r =
     (case r of
        PermissionReturnedReply thrown \<Rightarrow> thrown = None
      | AudioStopReply a now \<Rightarrow> (case a of Inl e \<Rightarrow> False | Inr audio \<Rightarrow> True)
      | SoundLoadReply error duration \<Rightarrow> error \<noteq> None
      | SoundStopReply \<Rightarrow> False
      | _ \<Rightarrow> True)"

definition appends_entry :: "event \<Rightarrow> bool" where
  "appends_entry ev =
     (case ev of
        PressStart thrown \<Rightarrow> thrown = None
      | Settle n r \<Rightarrow> reply_logs r
      | _ \<Rightarrow> False)"

text \<open>The log of \<open>s'\<close> is that of \<open>s\<close> followed by at least \<open>n\<close> entries.\<close>

definition grows :: "nat \<Rightarrow> state \<Rightarrow> state \<Rightarrow> bool" where
  "grows n s s' \<longleftrightarrow> (\<exists>ys. debugLogs s' = debugLogs s @ ys \<and> n \<le> length ys)"

text \<open>
  The invariant behind flag exclusivity: the processing flag is set only while a continuation of
  \<^verbatim>\<open>processAudio\<close> is suspended, and the recording flag is clear while a stop-and-save or a
  transcription is in flight.
\<close>

definition exclusive_inv :: "machine \<Rightarrow> bool" where
  "exclusive_inv m \<longleftrightarrow>
     (isProcessing (ui m) \<longrightarrow> list_ex transcribing (pending m)) \<and>
     (list_ex in_flight (pending m) \<longrightarrow> \<not> isRecording (ui m))"

definition spawned :: "outcome \<Rightarrow> task list" where
  "spawned out = (case out of Suspended k s \<Rightarrow> [k] | _ \<Rightarrow> [])"

text \<open>
  A run for evaluation: the engine initializes to a context, a recording is started and stopped,
  the file is saved and its transcription starts.
\<close>

definition example_run :: "event list" where
  "example_run =
     [Settle 1 (ExistsReply (Inr True)),
      Settle 1 (InitWhisperReply (Inr (WContext []))),
      PressStart None,
      PressStop,
      Settle 1 (AudioStopReply (Inr ''/cache/test.wav'') 0),
      Settle 1 (MoveFileReply None),
      Settle 1 (StatReply (Inr 0))]"

section \<open>Properties\<close>

subsection \<open>Auxiliary facts: the log only grows\<close>

lemma ui_absorb: "ui (absorb out m) = state_of out"
  by (cases out) (simp_all add: absorb_def)

lemma grows_trans: "grows a s s' \<Longrightarrow> grows b s' s'' \<Longrightarrow> grows (a + b) s s''"
  by (auto simp: grows_def)

lemma grows_weaken: "grows a s s' \<Longrightarrow> b \<le> a \<Longrightarrow> grows b s s'"
  by (auto simp: grows_def)

lemma grows_processAudio: "grows (Suc 0) s (state_of (processAudio rt audio s))"
  by (auto simp: grows_def processAudio_def processAudio_catch_def addDebugLog_def Let_def
      split: whisper.splits)

lemma grows_processAudio_transcribed: "grows (Suc 0) s (state_of (processAudio_transcribed rt r s))"
  by (auto simp: grows_def processAudio_transcribed_def processAudio_catch_def
      processAudio_done_def addDebugLog_def Let_def split: sum.splits)

lemma grows_processAudio_resolved: "grows (Suc 0) s (state_of (processAudio_resolved rt r s))"
  by (auto simp: grows_def processAudio_resolved_def processAudio_catch_def
      processAudio_done_def addDebugLog_def Let_def split: sum.splits bool.splits)

lemma grows_stopRecording_stat: "grows (Suc 0) s (state_of (stopRecording_stat rt f r s))"
proof (cases r)
  case (Inl e)
  then show ?thesis
    by (simp add: grows_def stopRecording_stat_def stopRecording_catch_def addDebugLog_def)
next
  case (Inr n)
  have "grows (Suc 0) s (addDebugLog (''Audio file size: '' @ Number_toString rt n @ '' bytes'') s)"
    by (simp add: grows_def addDebugLog_def)
  from grows_trans [OF this grows_processAudio] Inr show ?thesis
    by (auto simp: stopRecording_stat_def Let_def intro: grows_weaken)
qed

lemma grows_requestMicrophonePermission_returned:
  "grows (Suc 0) s (state_of (requestMicrophonePermission_returned rt r s))"
  by (auto simp: grows_def requestMicrophonePermission_returned_def
      requestMicrophonePermission_settled_def addDebugLog_def split: sum.splits)

lemma grows_setupAudioRecord_init:
  "grows (Suc 0) s (state_of (setupAudioRecord_init None s))"
  "grows 0 s (state_of (setupAudioRecord_init (Some e) s))"
  by (simp_all add: grows_def setupAudioRecord_init_def addDebugLog_def)

lemma grows_initWhispers_exists: "grows (Suc 0) s (state_of (initWhispers_exists rt r s))"
  by (auto simp: grows_def initWhispers_exists_def initWhispers_catch_def addDebugLog_def Let_def
      split: sum.splits)

lemma grows_initWhispers_copied: "grows (Suc 0) s (state_of (initWhispers_copied r s))"
  by (auto simp: grows_def initWhispers_copied_def initWhispers_catch_def addDebugLog_def
      split: option.splits)

lemma grows_initWhispers_initialized: "grows (Suc 0) s (state_of (initWhispers_initialized rt r s))"
  by (auto simp: grows_def initWhispers_initialized_def initWhispers_catch_def addDebugLog_def
      Let_def split: sum.splits whisper.splits)

lemma grows_stopRecording_stopped:
  "grows 0 s (state_of (stopRecording_stopped rt (Inl e) now s))"
  "grows (Suc 0) s (state_of (stopRecording_stopped rt (Inr a) now s))"
  by (simp_all add: grows_def stopRecording_stopped_def addDebugLog_def Let_def)

lemma grows_stopRecording_moved: "grows (Suc 0) s (state_of (stopRecording_moved f r s))"
  by (auto simp: grows_def stopRecording_moved_def stopRecording_catch_def addDebugLog_def Let_def
      split: option.splits)

lemma grows_deleteAudio_unlinked: "grows (Suc 0) s (state_of (deleteAudio_unlinked r s))"
  by (auto simp: grows_def deleteAudio_unlinked_def addDebugLog_def Let_def split: option.splits)

lemma grows_playAudio_loaded:
  "grows 0 s (state_of (playAudio_loaded None d s))"
  "grows (Suc 0) s (state_of (playAudio_loaded (Some e) d s))"
  by (simp_all add: grows_def playAudio_loaded_def addDebugLog_def)

lemma grows_playAudio_ended: "grows (Suc 0) s (state_of (playAudio_ended b s))"
  by (auto simp: grows_def playAudio_ended_def addDebugLog_def)

lemma grows_stopAudio_stopped: "grows 0 s (state_of (stopAudio_stopped s))"
  by (simp add: grows_def stopAudio_stopped_def)

lemma grows_startRecording:
  "grows (Suc 0) s (state_of (startRecording None s))"
  "grows 0 s (state_of (startRecording (Some e) s))"
  by (simp_all add: grows_def startRecording_def addDebugLog_def Let_def)

lemma grows_presses:
  "grows 0 s (state_of (stopRecording s))"
  "grows 0 s (state_of (playAudio s))"
  "grows 0 s (state_of (stopAudio s))"
  "grows 0 s (state_of (deleteAudio s))"
  by (simp_all add: grows_def stopRecording_def playAudio_def stopAudio_def deleteAudio_def)

lemma grows_resume:
  assumes "resume rt k r s = Some out"
  shows "grows (if reply_logs r then Suc 0 else 0) s (state_of out)"
proof (cases k)
  case AwaitPermission
  with assms show ?thesis
    by (cases r)
      (auto simp: resume_def reply_logs_def intro: grows_requestMicrophonePermission_returned)
next
  case AwaitRequestMicrophonePermission
  with assms show ?thesis
    by (cases r) (auto simp: resume_def reply_logs_def grows_setupAudioRecord_init)
next
  case AwaitExists
  with assms show ?thesis
    by (cases r) (auto simp: resume_def reply_logs_def intro: grows_initWhispers_exists)
next
  case AwaitCopyFileAssets
  with assms show ?thesis
    by (cases r) (auto simp: resume_def reply_logs_def intro: grows_initWhispers_copied)
next
  case AwaitCopyFile
  with assms show ?thesis
    by (cases r) (auto simp: resume_def reply_logs_def intro: grows_initWhispers_copied)
next
  case AwaitInitWhisper
  with assms show ?thesis
    by (cases r) (auto simp: resume_def reply_logs_def intro: grows_initWhispers_initialized)
next
  case AwaitAudioStop
  with assms show ?thesis
    by (cases r)
      (auto simp: resume_def reply_logs_def grows_stopRecording_stopped split: sum.splits)
next
  case (AwaitMoveFile f)
  with assms show ?thesis
    by (cases r) (auto simp: resume_def reply_logs_def intro: grows_stopRecording_moved)
next
  case (AwaitStat f)
  with assms show ?thesis
    by (cases r) (auto simp: resume_def reply_logs_def intro: grows_stopRecording_stat)
next
  case (AwaitTranscribe a)
  with assms show ?thesis
    by (cases r) (auto simp: resume_def reply_logs_def intro: grows_processAudio_transcribed)
next
  case (AwaitPromise p)
  with assms show ?thesis
    by (cases r)
      (auto simp: resume_def reply_logs_def split: option.splits
        intro: grows_processAudio_resolved)
next
  case AwaitUnlink
  with assms show ?thesis
    by (cases r) (auto simp: resume_def reply_logs_def intro: grows_deleteAudio_unlinked)
next
  case AwaitSoundLoad
  with assms show ?thesis
    by (cases r) (auto simp: resume_def reply_logs_def grows_playAudio_loaded)
next
  case AwaitPlayEnd
  with assms show ?thesis
    by (cases r) (auto simp: resume_def reply_logs_def intro: grows_playAudio_ended)
next
  case AwaitSoundStop
  with assms show ?thesis
    by (cases r) (auto simp: resume_def reply_logs_def intro: grows_stopAudio_stopped)
qed

lemma grows_step:
  assumes "step rt ev m = Some m'"
  shows "grows (if appends_entry ev then Suc 0 else 0) (ui m) (ui m')"
proof (cases ev)
  case (PressStart thrown)
  with assms show ?thesis
    by (cases thrown)
      (auto simp: appends_entry_def ui_absorb grows_startRecording split: if_splits)
next
  case PressStop
  with assms show ?thesis
    by (auto simp: appends_entry_def ui_absorb grows_presses split: if_splits)
next
  case PressPlay
  with assms show ?thesis
    by (auto simp: appends_entry_def ui_absorb grows_presses split: if_splits)
next
  case PressStopAudio
  with assms show ?thesis
    by (auto simp: appends_entry_def ui_absorb grows_presses split: if_splits)
next
  case PressDelete
  with assms show ?thesis
    by (auto simp: appends_entry_def ui_absorb grows_presses split: if_splits)
next
  case (Settle n r)
  with assms obtain out where
    out: "resume rt (pending m ! n) r (ui m) = Some out" and m': "ui m' = state_of out"
    by (auto simp: ui_absorb split: if_splits option.splits)
  from grows_resume [OF out] m' Settle show ?thesis
    by (simp add: appends_entry_def)
qed

lemma grows_exec:
  "exec rt evs m = Some m' \<Longrightarrow> grows (length (filter appends_entry evs)) (ui m) (ui m')"
proof (induction evs arbitrary: m)
  case Nil
  then show ?case by (simp add: grows_def)
next
  case (Cons ev evs)
  then obtain m1 where s: "step rt ev m = Some m1" and e: "exec rt evs m1 = Some m'"
    by (auto split: option.splits)
  from grows_trans [OF grows_step [OF s] Cons.IH [OF e]] show ?case
    by (auto intro: grows_weaken)
qed

lemma unchanged_resume:
  assumes "resume rt k r s = Some out" and "\<not> reply_logs r"
  shows "debugLogs (state_of out) = debugLogs s"
proof (cases r)
  case (PermissionReturnedReply thrown)
  with assms show ?thesis
    by (cases k) (auto simp: resume_def reply_logs_def setupAudioRecord_init_def)
next
  case (AudioStopReply a now)
  with assms show ?thesis
    by (cases k) (auto simp: resume_def reply_logs_def stopRecording_stopped_def split: sum.splits)
next
  case (SoundLoadReply error duration)
  with assms show ?thesis
    by (cases k) (auto simp: resume_def reply_logs_def playAudio_loaded_def)
next
  case SoundStopReply
  with assms show ?thesis
    by (cases k) (auto simp: resume_def stopAudio_stopped_def)
qed (use assms in \<open>simp_all add: reply_logs_def\<close>)

lemma unchanged_step:
  assumes "step rt ev m = Some m'" and "\<not> appends_entry ev"
  shows "debugLogs (ui m') = debugLogs (ui m)"
proof (cases ev)
  case (PressStart thrown)
  with assms show ?thesis
    by (auto simp: appends_entry_def ui_absorb startRecording_def split: if_splits)
next
  case PressStop
  with assms show ?thesis
    by (auto simp: ui_absorb stopRecording_def split: if_splits)
next
  case PressPlay
  with assms show ?thesis
    by (auto simp: ui_absorb playAudio_def split: if_splits)
next
  case PressStopAudio
  with assms show ?thesis
    by (auto simp: ui_absorb stopAudio_def split: if_splits)
next
  case PressDelete
  with assms show ?thesis
    by (auto simp: ui_absorb deleteAudio_def split: if_splits)
next
  case (Settle n r)
  with assms obtain out where
    out: "resume rt (pending m ! n) r (ui m) = Some out" and m': "ui m' = state_of out"
    by (auto simp: ui_absorb split: if_splits option.splits)
  from assms(2) Settle have "\<not> reply_logs r"
    by (simp add: appends_entry_def)
  from unchanged_resume [OF out this] m' show ?thesis by simp
qed

lemma unchanged_exec:
  "exec rt evs m = Some m' \<Longrightarrow> list_all (\<lambda>ev. \<not> appends_entry ev) evs \<Longrightarrow>
   debugLogs (ui m') = debugLogs (ui m)"
proof (induction evs arbitrary: m)
  case Nil
  then show ?case by simp
next
  case (Cons ev evs)
  then obtain m1 where s: "step rt ev m = Some m1" and e: "exec rt evs m1 = Some m'"
    by (auto split: option.splits)
  from Cons.prems(2) have "\<not> appends_entry ev" and "list_all (\<lambda>ev. \<not> appends_entry ev) evs"
    by simp_all
  with unchanged_step [OF s] Cons.IH [OF e] show ?case by simp
qed

subsection \<open>Auxiliary facts: the two flags\<close>

lemma pending_absorb: "pending (absorb out m) = pending m @ spawned out"
  by (cases out) (simp_all add: absorb_def spawned_def)

lemma transcribing_in_flight: "transcribing k \<Longrightarrow> in_flight k"
  by (cases k) (simp_all add: in_flight_def transcribing_def)

lemma list_ex_remove:
  assumes "list_ex P xs" "\<not> P (xs ! n)" "n < length xs"
  shows "list_ex P (take n xs @ drop (Suc n) xs)"
proof -
  from assms(3) have "xs = take n xs @ xs ! n # drop (Suc n) xs"
    by (rule id_take_nth_drop)
  then have "list_ex P (take n xs @ xs ! n # drop (Suc n) xs)"
    using assms(1) by simp
  with assms(2) show ?thesis
    by (auto simp: list_ex_iff)
qed

lemma list_ex_removed:
  "list_ex P (take n xs @ drop (Suc n) xs) \<Longrightarrow> list_ex P xs"
  by (auto simp: list_ex_iff dest: in_set_takeD in_set_dropD)

lemma processAudio_flags:
  "isRecording (state_of (processAudio rt a s)) = isRecording s"
  "isProcessing (state_of (processAudio rt a s)) \<Longrightarrow> list_ex transcribing (spawned (processAudio rt a s))"
  by (auto simp: processAudio_def processAudio_catch_def addDebugLog_def Let_def spawned_def
      transcribing_def split: whisper.splits if_splits)

lemma processAudio_transcribed_flags:
  "isRecording (state_of (processAudio_transcribed rt r s)) = isRecording s"
  "isProcessing (state_of (processAudio_transcribed rt r s)) \<Longrightarrow>
     list_ex transcribing (spawned (processAudio_transcribed rt r s))"
  by (auto simp: processAudio_transcribed_def processAudio_catch_def processAudio_done_def
      addDebugLog_def Let_def spawned_def transcribing_def split: sum.splits if_splits)

lemma processAudio_resolved_flags:
  "isRecording (state_of (processAudio_resolved rt r s)) = isRecording s"
  "\<not> isProcessing (state_of (processAudio_resolved rt r s))"
  "spawned (processAudio_resolved rt r s) = []"
  by (auto simp: processAudio_resolved_def processAudio_catch_def processAudio_done_def
      addDebugLog_def Let_def spawned_def split: sum.splits bool.splits if_splits)

lemma stopRecording_stat_flags:
  "isRecording (state_of (stopRecording_stat rt f r s)) = isRecording s"
  "isProcessing (state_of (stopRecording_stat rt f r s)) \<Longrightarrow>
     list_ex transcribing (spawned (stopRecording_stat rt f r s)) \<or> isProcessing s"
  using processAudio_flags(2)
  by (auto simp: stopRecording_stat_def stopRecording_catch_def addDebugLog_def Let_def
      processAudio_flags(1) split: sum.splits)

lemma resume_flags:
  assumes "resume rt k r s = Some out"
  shows "isRecording (state_of out) = isRecording s"
    and "isProcessing (state_of out) \<Longrightarrow>
           list_ex transcribing (spawned out) \<or> (isProcessing s \<and> \<not> transcribing k)"
    and "list_ex in_flight (spawned out) \<Longrightarrow> in_flight k"
proof -
  have "isRecording (state_of out) = isRecording s \<and>
        (isProcessing (state_of out) \<longrightarrow>
           list_ex transcribing (spawned out) \<or> (isProcessing s \<and> \<not> transcribing k)) \<and>
        (list_ex in_flight (spawned out) \<longrightarrow> in_flight k)"
  proof (cases k)
    case AwaitPermission
    with assms show ?thesis
      by (cases r)
        (auto simp: resume_def requestMicrophonePermission_returned_def
          requestMicrophonePermission_settled_def addDebugLog_def spawned_def transcribing_def
          in_flight_def split: sum.splits if_splits)
  next
    case AwaitRequestMicrophonePermission
    with assms show ?thesis
      by (cases r)
        (auto simp: resume_def setupAudioRecord_init_def addDebugLog_def spawned_def
          transcribing_def split: option.splits)
  next
    case AwaitExists
    with assms show ?thesis
      by (cases r)
        (auto simp: resume_def initWhispers_exists_def initWhispers_catch_def addDebugLog_def
          Let_def spawned_def transcribing_def in_flight_def split: sum.splits if_splits)
  next
    case AwaitCopyFileAssets
    with assms show ?thesis
      by (cases r)
        (auto simp: resume_def initWhispers_copied_def initWhispers_catch_def addDebugLog_def
          spawned_def transcribing_def in_flight_def split: option.splits if_splits)
  next
    case AwaitCopyFile
    with assms show ?thesis
      by (cases r)
        (auto simp: resume_def initWhispers_copied_def initWhispers_catch_def addDebugLog_def
          spawned_def transcribing_def in_flight_def split: option.splits if_splits)
  next
    case AwaitInitWhisper
    with assms show ?thesis
      by (cases r)
        (auto simp: resume_def initWhispers_initialized_def initWhispers_catch_def
          addDebugLog_def Let_def spawned_def transcribing_def split: sum.splits whisper.splits if_splits)
  next
    case AwaitAudioStop
    with assms show ?thesis
      by (cases r)
        (auto simp: resume_def stopRecording_stopped_def addDebugLog_def Let_def spawned_def
          transcribing_def in_flight_def split: sum.splits if_splits)
  next
    case (AwaitMoveFile f)
    with assms show ?thesis
      by (cases r)
        (auto simp: resume_def stopRecording_moved_def stopRecording_catch_def addDebugLog_def
          Let_def spawned_def transcribing_def in_flight_def split: option.splits if_splits)
  next
    case (AwaitStat f)
    with assms show ?thesis
      using stopRecording_stat_flags [of rt f _ s]
      by (cases r) (auto simp: resume_def transcribing_def in_flight_def)
  next
    case (AwaitTranscribe a)
    with assms show ?thesis
      using processAudio_transcribed_flags [of rt _ s]
      by (cases r) (auto simp: resume_def transcribing_def in_flight_def)
  next
    case (AwaitPromise p)
    with assms show ?thesis
      by (cases r)
        (auto simp: resume_def processAudio_resolved_flags transcribing_def in_flight_def
          split: option.splits if_splits)
  next
    case AwaitUnlink
    with assms show ?thesis
      by (cases r)
        (auto simp: resume_def deleteAudio_unlinked_def addDebugLog_def Let_def spawned_def
          transcribing_def split: option.splits if_splits)
  next
    case AwaitSoundLoad
    with assms show ?thesis
      by (cases r)
        (auto simp: resume_def playAudio_loaded_def addDebugLog_def spawned_def
          transcribing_def in_flight_def split: option.splits if_splits)
  next
    case AwaitPlayEnd
    with assms show ?thesis
      by (cases r)
        (auto simp: resume_def playAudio_ended_def addDebugLog_def spawned_def transcribing_def
          split: if_splits)
  next
    case AwaitSoundStop
    with assms show ?thesis
      by (cases r) (auto simp: resume_def stopAudio_stopped_def spawned_def transcribing_def)
  qed
  then show "isRecording (state_of out) = isRecording s"
    and "isProcessing (state_of out) \<Longrightarrow>
           list_ex transcribing (spawned out) \<or> (isProcessing s \<and> \<not> transcribing k)"
    and "list_ex in_flight (spawned out) \<Longrightarrow> in_flight k"
    by simp_all
qed

lemma exclusive_inv_settle:
  assumes inv: "exclusive_inv m" and st: "step rt (Settle n r) m = Some m'"
  shows "exclusive_inv m'"
proof -
  let ?rest = "take n (pending m) @ drop (Suc n) (pending m)"
  from st obtain out where n: "n < length (pending m)"
    and out: "resume rt (pending m ! n) r (ui m) = Some out"
    and m': "m' = absorb out (m\<lparr>pending := ?rest\<rparr>)"
    by (auto split: if_splits option.splits)
  from m' have ui: "ui m' = state_of out" and pend: "pending m' = ?rest @ spawned out"
    by (simp_all add: ui_absorb pending_absorb)
  have "list_ex transcribing (pending m')" if p: "isProcessing (ui m')"
  proof -
    from resume_flags(2) [OF out] p ui
    consider "list_ex transcribing (spawned out)"
      | "isProcessing (ui m)" "\<not> transcribing (pending m ! n)"
      by auto
    then show ?thesis
    proof cases
      case 1
      then show ?thesis by (simp add: pend)
    next
      case 2
      with inv have "list_ex transcribing (pending m)"
        by (simp add: exclusive_inv_def)
      from list_ex_remove [OF this 2(2) n] show ?thesis
        by (auto simp: pend)
    qed
  qed
  moreover have "\<not> isRecording (ui m')" if f: "list_ex in_flight (pending m')"
  proof -
    from f pend consider "list_ex in_flight ?rest" | "list_ex in_flight (spawned out)"
      by auto
    then have "list_ex in_flight (pending m)"
    proof cases
      case 1
      then show ?thesis by (rule list_ex_removed)
    next
      case 2
      from resume_flags(3) [OF out 2] n show ?thesis
        by (auto simp: list_ex_iff)
    qed
    with inv have "\<not> isRecording (ui m)"
      by (simp add: exclusive_inv_def)
    with resume_flags(1) [OF out] ui show ?thesis by simp
  qed
  ultimately show ?thesis
    by (auto simp: exclusive_inv_def)
qed

lemma exclusive_inv_step:
  assumes inv: "exclusive_inv m" and st: "step rt ev m = Some m'"
    and idle: "case ev of PressStart thrown \<Rightarrow> \<not> list_ex in_flight (pending m) | _ \<Rightarrow> True"
  shows "exclusive_inv m'"
proof (cases ev)
  case (PressStart thrown)
  with assms show ?thesis
    by (cases thrown)
      (auto simp: exclusive_inv_def ui_absorb pending_absorb startRecording_def addDebugLog_def
        spawned_def Let_def split: if_splits)
next
  case PressStop
  with assms show ?thesis
    by (auto simp: exclusive_inv_def ui_absorb pending_absorb stopRecording_def spawned_def
        split: if_splits)
next
  case PressPlay
  with assms show ?thesis
    by (auto simp: exclusive_inv_def ui_absorb pending_absorb playAudio_def spawned_def
        in_flight_def transcribing_def split: if_splits)
next
  case PressStopAudio
  with assms show ?thesis
    by (auto simp: exclusive_inv_def ui_absorb pending_absorb stopAudio_def spawned_def
        in_flight_def transcribing_def split: if_splits)
next
  case PressDelete
  with assms show ?thesis
    by (auto simp: exclusive_inv_def ui_absorb pending_absorb deleteAudio_def spawned_def
        in_flight_def transcribing_def split: if_splits)
next
  case (Settle n r)
  with inv st show ?thesis
    by (auto intro: exclusive_inv_settle)
qed

lemma exclusive_inv_exec:
  "exclusive_inv m \<Longrightarrow> start_when_idle rt evs m \<Longrightarrow> exec rt evs m = Some m' \<Longrightarrow>
   exclusive_inv m'"
proof (induction evs arbitrary: m)
  case Nil
  then show ?case by simp
next
  case (Cons ev evs)
  from Cons.prems(3) obtain m1 where s: "step rt ev m = Some m1" and e: "exec rt evs m1 = Some m'"
    by (auto split: option.splits)
  from Cons.prems(2) s
  have idle: "case ev of PressStart thrown \<Rightarrow> \<not> list_ex in_flight (pending m) | _ \<Rightarrow> True"
    and rest: "start_when_idle rt evs m1"
    by simp_all
  from exclusive_inv_step [OF Cons.prems(1) s idle] rest e show ?case
    by (rule Cons.IH)
qed

lemma exclusive_inv_mount: "exclusive_inv (mount rt thrown)"
  by (auto simp: exclusive_inv_def mount_def ui_absorb pending_absorb initWhispers_def
      setupAudioRecord_def setupAudioRecord_init_def addDebugLog_def initial_state_def Let_def
      spawned_def in_flight_def transcribing_def split: option.splits)

lemma exclusive_inv_flags: "exclusive_inv m \<Longrightarrow> \<not> (isRecording (ui m) \<and> isProcessing (ui m))"
  by (auto simp: exclusive_inv_def list_ex_iff dest: transcribing_in_flight)

subsection \<open>Auxiliary facts: segments of strings\<close>

lemma map_text_strings:
  "map (\<lambda>x. js_get x ''text'') xs = map (\<lambda>t. Some (JStr t)) ts \<Longrightarrow>
   map_text rt xs = Inr (map JStr ts)"
  by (induction xs arbitrary: ts) auto

lemma join_strings: "join rt '' '' (map JStr ts) = Inr (spaced ts)"
  by (induction ts rule: spaced.induct) simp_all

subsection \<open>Evaluating the example run\<close>

lemma example_run_defined:
  "\<exists>m. exec example_runtime example_run (mount example_runtime None) = Some m"
proof -
  have "exec example_runtime example_run (mount example_runtime None) \<noteq> None"
    by code_simp
  then show ?thesis by auto
qed

text \<open>
  The two startup sequences interleave: the engine's file check can log between the permission
  entry and the entry of \<^verbatim>\<open>AudioRecord.init\<close>.
\<close>

lemma startup_interleaves:
  "debugLogs (ui (the (exec example_runtime
     [Settle 0 (PermissionReply (Inr ''granted'')),
      Settle 0 (ExistsReply (Inr True)),
      Settle 0 (PermissionReturnedReply None)]
     (mount example_runtime None)))) =
   [''Initializing Whisper...'', ''Microphone permission granted'', ''Model exists: true'',
    ''Model path: /data/files/ggml-base.bin'', ''Audio Record initialized'']"
  by code_simp

subsection \<open>Result normalization\<close>

text \<open>
  C1, as the claim states it, fails: a result whose direct \<^verbatim>\<open>text\<close> is the empty string has
  a direct \<^verbatim>\<open>text\<close> field, and yet the transcript is the unexpected-format error, not that
  text (line 212 tests the field for truthiness).
\<close>

theorem empty_text_not_used:
  "js_get (JObj [(''text'', JStr [])]) ''text'' = Some (JStr []) \<and>
   processAudio_transcript example_runtime (JObj [(''text'', JStr [])]) initial_state =
     Some (JStr ''Error processing audio: Unexpected transcription result format'')"
  by (simp add: processAudio_transcript_def processAudio_transcribed_def processAudio_catch_def
      and_get_def addDebugLog_def)

text \<open>
  C1, amended. For every value \<open>result\<close> that \<^verbatim>\<open>await Whisper.transcribe\<close> yields, the
  transcript that \<^verbatim>\<open>processAudio\<close> leaves is:
  \<^item> when \<open>result\<close> is an object with a truthy \<^verbatim>\<open>promise\<close> (tested first, whatever its
    \<^verbatim>\<open>text\<close>) and the promise resolves to \<open>tr\<close>: the \<^verbatim>\<open>result\<close> field of \<open>tr\<close> when
    that is truthy; otherwise, when the \<^verbatim>\<open>segments\<close> of \<open>tr\<close> are a non-empty array whose
    elements have strings as \<^verbatim>\<open>text\<close>, those strings joined in order with single spaces;
  \<^item> otherwise, when \<open>result\<close> has a truthy direct \<^verbatim>\<open>text\<close>: that field as it is;
  \<^item> otherwise (such as \<^verbatim>\<open>{}\<close> or \<^verbatim>\<open>{text: ''}\<close>): exactly
    \<^verbatim>\<open>Error processing audio: Unexpected transcription result format\<close>.
\<close>

theorem normalization_by_shape:
  "(promise_shaped result \<and> await_value (and_get result ''promise'') = Some (Inr tr) \<and>
      truthy (and_get tr ''result'') \<longrightarrow>
      processAudio_transcript rt result s = Some (and_get tr ''result'')) \<and>
   (promise_shaped result \<and> await_value (and_get result ''promise'') = Some (Inr tr) \<and>
      \<not> truthy (and_get tr ''result'') \<and> and_get tr ''segments'' = JArr xs \<and> xs \<noteq> [] \<and>
      map (\<lambda>x. js_get x ''text'') xs = map (\<lambda>t. Some (JStr t)) ts \<longrightarrow>
      processAudio_transcript rt result s = Some (JStr (spaced ts))) \<and>
   (\<not> promise_shaped result \<and> truthy (and_get result ''text'') \<longrightarrow>
      processAudio_transcript rt result s = Some (and_get result ''text'')) \<and>
   (\<not> promise_shaped result \<and> \<not> truthy (and_get result ''text'') \<longrightarrow>
      processAudio_transcript rt result s =
        Some (JStr ''Error processing audio: Unexpected transcription result format''))"
proof (intro conjI impI)
  assume "promise_shaped result \<and> await_value (and_get result ''promise'') = Some (Inr tr) \<and>
    truthy (and_get tr ''result'')"
  then show "processAudio_transcript rt result s = Some (and_get tr ''result'')"
    by (simp add: processAudio_transcript_def processAudio_transcribed_def promise_shaped_def
        processAudio_resolved_def processAudio_done_def Let_def)
next
  assume a: "promise_shaped result \<and> await_value (and_get result ''promise'') = Some (Inr tr) \<and>
    \<not> truthy (and_get tr ''result'') \<and> and_get tr ''segments'' = JArr xs \<and> xs \<noteq> [] \<and>
    map (\<lambda>x. js_get x ''text'') xs = map (\<lambda>t. Some (JStr t)) ts"
  then have "segments_text rt (JArr xs) = Inr (spaced ts)"
    by (simp add: segments_text_def map_text_strings join_strings)
  moreover from a have "greater_than_zero rt (and_get (JArr xs) ''length'') = Inr True"
    by (simp add: and_get_def)
  ultimately show "processAudio_transcript rt result s = Some (JStr (spaced ts))"
    using a
    by (simp add: processAudio_transcript_def processAudio_transcribed_def promise_shaped_def
        processAudio_resolved_def processAudio_done_def Let_def)
next
  assume "\<not> promise_shaped result \<and> truthy (and_get result ''text'')"
  then show "processAudio_transcript rt result s = Some (and_get result ''text'')"
    by (auto simp: processAudio_transcript_def processAudio_transcribed_def promise_shaped_def
        processAudio_done_def Let_def)
next
  assume "\<not> promise_shaped result \<and> \<not> truthy (and_get result ''text'')"
  then show "processAudio_transcript rt result s =
      Some (JStr ''Error processing audio: Unexpected transcription result format'')"
    by (auto simp: processAudio_transcript_def processAudio_transcribed_def promise_shaped_def
        processAudio_catch_def addDebugLog_def Let_def)
qed

theorem normalization_by_shape_witness:
  "processAudio_transcript example_runtime
     (JObj [(''promise'', JResolved (JObj [(''result'', JStr ''hello'')])),
            (''text'', JStr ''x'')]) initial_state = Some (JStr ''hello'') \<and>
   processAudio_transcript example_runtime
     (JObj [(''promise'', JResolved (JObj [(''segments'',
        JArr [JObj [(''text'', JStr ''a'')], JObj [(''text'', JStr ''b'')]])]))])
     initial_state = Some (JStr ''a b'') \<and>
   processAudio_transcript example_runtime (JObj [(''text'', JStr ''x'')]) initial_state =
     Some (JStr ''x'') \<and>
   processAudio_transcript example_runtime (JObj []) initial_state =
     Some (JStr ''Error processing audio: Unexpected transcription result format'')"
  using
    normalization_by_shape [where rt = example_runtime and s = initial_state
      and result = "JObj [(''promise'', JResolved (JObj [(''result'', JStr ''hello'')])),
                          (''text'', JStr ''x'')]"
      and tr = "JObj [(''result'', JStr ''hello'')]"]
    normalization_by_shape [where rt = example_runtime and s = initial_state
      and result = "JObj [(''promise'', JResolved (JObj [(''segments'',
                      JArr [JObj [(''text'', JStr ''a'')], JObj [(''text'', JStr ''b'')]])]))]"
      and tr = "JObj [(''segments'',
                      JArr [JObj [(''text'', JStr ''a'')], JObj [(''text'', JStr ''b'')]])]"
      and xs = "[JObj [(''text'', JStr ''a'')], JObj [(''text'', JStr ''b'')]]"
      and ts = "[''a'', ''b'']"]
    normalization_by_shape [where rt = example_runtime and s = initial_state
      and result = "JObj [(''text'', JStr ''x'')]"]
    normalization_by_shape [where rt = example_runtime and s = initial_state
      and result = "JObj []"]
  by (simp add: promise_shaped_def and_get_def)

text \<open>
  C10, as the claim states it, fails in its last part. An awaited value whose \<^verbatim>\<open>result\<close> is
  the empty string and whose \<^verbatim>\<open>segments\<close> is the string \<^verbatim>\<open>ab\<close> has no non-empty segments
  array; but the test of lines 201--203 asks only for a truthy value with a positive length, so
  \<^verbatim>\<open>segments.map\<close> is called and the transcript is the text of the engine's \<^verbatim>\<open>TypeError\<close>,
  not the no-text error.
\<close>

theorem string_segments_type_error:
  "\<not> truthy (and_get (JObj [(''result'', JStr []), (''segments'', JStr ''ab'')]) ''result'') \<and>
   \<not> is_array (and_get (JObj [(''result'', JStr []), (''segments'', JStr ''ab'')]) ''segments'') \<and>
   transcription (state_of (processAudio_resolved example_runtime
     (Inr (JObj [(''result'', JStr []), (''segments'', JStr ''ab'')])) initial_state)) =
     JStr ''Error processing audio: transcriptionResult.segments.map is not a function''"
  by (simp add: processAudio_resolved_def processAudio_catch_def addDebugLog_def and_get_def
      is_array_def segments_text_def example_runtime_def)

text \<open>
  C10, amended. In the promise branch the \<^verbatim>\<open>result\<close> field of the awaited value is the
  transcript when it is truthy. When it is falsy (the empty string, say) it is not used and the
  segments are tried:
  \<^item> a non-empty array of segments whose \<^verbatim>\<open>text\<close> fields are strings gives those strings
    joined with single spaces;
  \<^item> when \<^verbatim>\<open>segments\<close> is falsy, or its \<^verbatim>\<open>length\<close> is not greater than zero (missing, an
    empty array, a number), the transcript is
    \<^verbatim>\<open>Error processing audio: No transcription text in resolved result\<close>;
  \<^item> when \<^verbatim>\<open>segments\<close> is truthy with a length greater than zero and is not an array (a
    non-empty string, say), the transcript is \<^verbatim>\<open>Error processing audio: \<close> followed by the
    engine's text for calling the missing \<^verbatim>\<open>map\<close>.
\<close>

theorem promise_result_only_when_truthy:
  "(truthy (and_get tr ''result'') \<longrightarrow>
      transcription (state_of (processAudio_resolved rt (Inr tr) s)) = and_get tr ''result'') \<and>
   (\<not> truthy (and_get tr ''result'') \<and> and_get tr ''segments'' = JArr xs \<and> xs \<noteq> [] \<and>
      map (\<lambda>x. js_get x ''text'') xs = map (\<lambda>t. Some (JStr t)) ts \<longrightarrow>
      transcription (state_of (processAudio_resolved rt (Inr tr) s)) = JStr (spaced ts)) \<and>
   (\<not> truthy (and_get tr ''result'') \<and>
      (\<not> truthy (and_get tr ''segments'') \<or>
       greater_than_zero rt (and_get (and_get tr ''segments'') ''length'') = Inr False) \<longrightarrow>
      transcription (state_of (processAudio_resolved rt (Inr tr) s)) =
        JStr ''Error processing audio: No transcription text in resolved result'') \<and>
   (\<not> truthy (and_get tr ''result'') \<and> truthy (and_get tr ''segments'') \<and>
      greater_than_zero rt (and_get (and_get tr ''segments'') ''length'') = Inr True \<and>
      \<not> is_array (and_get tr ''segments'') \<longrightarrow>
      transcription (state_of (processAudio_resolved rt (Inr tr) s)) =
        JStr (''Error processing audio: '' @
          not_a_function_message rt ''transcriptionResult.segments.map''))"
proof (intro conjI impI)
  assume "truthy (and_get tr ''result'')"
  then show "transcription (state_of (processAudio_resolved rt (Inr tr) s)) =
      and_get tr ''result''"
    by (simp add: processAudio_resolved_def processAudio_done_def Let_def)
next
  assume a: "\<not> truthy (and_get tr ''result'') \<and> and_get tr ''segments'' = JArr xs \<and> xs \<noteq> [] \<and>
    map (\<lambda>x. js_get x ''text'') xs = map (\<lambda>t. Some (JStr t)) ts"
  then have "segments_text rt (JArr xs) = Inr (spaced ts)"
    by (simp add: segments_text_def map_text_strings join_strings)
  moreover from a have "greater_than_zero rt (and_get (JArr xs) ''length'') = Inr True"
    by (simp add: and_get_def)
  ultimately show "transcription (state_of (processAudio_resolved rt (Inr tr) s)) =
      JStr (spaced ts)"
    using a by (simp add: processAudio_resolved_def processAudio_done_def Let_def)
next
  assume "\<not> truthy (and_get tr ''result'') \<and>
    (\<not> truthy (and_get tr ''segments'') \<or>
     greater_than_zero rt (and_get (and_get tr ''segments'') ''length'') = Inr False)"
  then show "transcription (state_of (processAudio_resolved rt (Inr tr) s)) =
      JStr ''Error processing audio: No transcription text in resolved result''"
    by (auto simp: processAudio_resolved_def processAudio_catch_def addDebugLog_def Let_def)
next
  assume a: "\<not> truthy (and_get tr ''result'') \<and> truthy (and_get tr ''segments'') \<and>
    greater_than_zero rt (and_get (and_get tr ''segments'') ''length'') = Inr True \<and>
    \<not> is_array (and_get tr ''segments'')"
  then have "segments_text rt (and_get tr ''segments'') =
      Inl (Error (not_a_function_message rt ''transcriptionResult.segments.map''))"
    by (cases "and_get tr ''segments''") (simp_all add: segments_text_def is_array_def)
  with a show "transcription (state_of (processAudio_resolved rt (Inr tr) s)) =
      JStr (''Error processing audio: '' @
        not_a_function_message rt ''transcriptionResult.segments.map'')"
    by (simp add: processAudio_resolved_def processAudio_catch_def addDebugLog_def Let_def)
qed

theorem promise_result_only_when_truthy_witness:
  "transcription (state_of (processAudio_resolved example_runtime
     (Inr (JObj [(''result'', JStr ''hello'')])) initial_state)) = JStr ''hello'' \<and>
   transcription (state_of (processAudio_resolved example_runtime
     (Inr (JObj [(''result'', JStr []), (''segments'',
        JArr [JObj [(''text'', JStr ''a'')], JObj [(''text'', JStr ''b'')]])])) initial_state)) =
     JStr ''a b'' \<and>
   transcription (state_of (processAudio_resolved example_runtime
     (Inr (JObj [(''result'', JStr [])])) initial_state)) =
     JStr ''Error processing audio: No transcription text in resolved result'' \<and>
   transcription (state_of (processAudio_resolved example_runtime
     (Inr (JObj [(''result'', JStr []), (''segments'', JArr [])])) initial_state)) =
     JStr ''Error processing audio: No transcription text in resolved result'' \<and>
   transcription (state_of (processAudio_resolved example_runtime
     (Inr (JObj [(''result'', JStr []), (''segments'', JNum 5)])) initial_state)) =
     JStr ''Error processing audio: No transcription text in resolved result'' \<and>
   transcription (state_of (processAudio_resolved example_runtime
     (Inr (JObj [(''result'', JStr []), (''segments'', JStr ''ab'')])) initial_state)) =
     JStr ''Error processing audio: transcriptionResult.segments.map is not a function''"
proof -
  have msg: "not_a_function_message example_runtime ''transcriptionResult.segments.map'' =
      ''transcriptionResult.segments.map is not a function''"
    by (simp add: example_runtime_def)
  show ?thesis
    using
      promise_result_only_when_truthy [where rt = example_runtime and s = initial_state
        and tr = "JObj [(''result'', JStr ''hello'')]"]
      promise_result_only_when_truthy [where rt = example_runtime and s = initial_state
        and tr = "JObj [(''result'', JStr []), (''segments'',
                   JArr [JObj [(''text'', JStr ''a'')], JObj [(''text'', JStr ''b'')]])]"
        and xs = "[JObj [(''text'', JStr ''a'')], JObj [(''text'', JStr ''b'')]]"
        and ts = "[''a'', ''b'']"]
      promise_result_only_when_truthy [where rt = example_runtime and s = initial_state
        and tr = "JObj [(''result'', JStr [])]"]
      promise_result_only_when_truthy [where rt = example_runtime and s = initial_state
        and tr = "JObj [(''result'', JStr []), (''segments'', JArr [])]"]
      promise_result_only_when_truthy [where rt = example_runtime and s = initial_state
        and tr = "JObj [(''result'', JStr []), (''segments'', JNum 5)]"]
      promise_result_only_when_truthy [where rt = example_runtime and s = initial_state
        and tr = "JObj [(''result'', JStr []), (''segments'', JStr ''ab'')]"]
    by (simp add: and_get_def is_array_def msg)
qed

subsection \<open>The engine\<close>

text \<open>
  C4. While \<^verbatim>\<open>Whisper\<close> is \<^verbatim>\<open>undefined\<close>, \<^verbatim>\<open>null\<close> or otherwise falsy, \<^verbatim>\<open>processAudio\<close>
  returns in its first segment: it never reaches the call of \<^verbatim>\<open>transcribe\<close> (nor the log entry
  before it), and the transcript is exactly
  \<^verbatim>\<open>Error processing audio: Whisper not initialized\<close>.
\<close>

theorem processAudio_without_engine:
  "\<not> whisper_truthy (Whisper s) \<Longrightarrow>
   processAudio rt audio s =
     Returned (s\<lparr>isProcessing := False,
       transcription := JStr ''Error processing audio: Whisper not initialized'',
       debugLogs := debugLogs s @
         [''Processing audio...'', ''Error processing audio: Whisper not initialized'']\<rparr>)"
  by (simp add: processAudio_def processAudio_catch_def addDebugLog_def)

theorem processAudio_without_engine_witness:
  "\<not> whisper_truthy (Whisper initial_state) \<and>
   transcription (state_of (processAudio example_runtime ''a.wav'' initial_state)) =
     JStr ''Error processing audio: Whisper not initialized''"
proof -
  have h: "\<not> whisper_truthy (Whisper initial_state)"
    by (simp add: initial_state_def)
  from processAudio_without_engine [OF h, of example_runtime "''a.wav''"] h
  show ?thesis by simp
qed

text \<open>
  C2 does not hold of the code. When \<^verbatim>\<open>initWhisper\<close> resolves to an object without a function
  \<^verbatim>\<open>transcribe\<close> (here \<^verbatim>\<open>{}\<close>), line 135 has stored it in \<^verbatim>\<open>Whisper\<close> before line 139
  rejects it, and the \<^verbatim>\<open>catch\<close> block does not clear it: initialization is logged as failed,
  the reference stays truthy, and a later \<^verbatim>\<open>processAudio\<close> passes the guard of line 181, logs
  the start of the transcription and fails on the call itself, with the engine's
  \<^verbatim>\<open>TypeError\<close> text in the transcript.
\<close>

theorem failed_init_keeps_engine:
  "initWhispers_initialized rt (Inr (WData (JObj []))) s =
     Returned (s\<lparr>Whisper := WData (JObj []),
       debugLogs := debugLogs s @
         [''Failed to initialize Whisper: Whisper not properly initialized'']\<rparr>) \<and>
   whisper_truthy (Whisper (s\<lparr>Whisper := WData (JObj []),
       debugLogs := debugLogs s @
         [''Failed to initialize Whisper: Whisper not properly initialized'']\<rparr>)) \<and>
   processAudio rt audio (s\<lparr>Whisper := WData (JObj []),
       debugLogs := debugLogs s @
         [''Failed to initialize Whisper: Whisper not properly initialized'']\<rparr>) =
     Returned (s\<lparr>Whisper := WData (JObj []), isProcessing := False,
       transcription :=
         JStr (''Error processing audio: '' @ not_a_function_message rt ''Whisper.transcribe''),
       debugLogs := debugLogs s @
         [''Failed to initialize Whisper: Whisper not properly initialized'',
          ''Processing audio...'', ''Starting transcription...'',
          ''Error processing audio: '' @ not_a_function_message rt ''Whisper.transcribe'']\<rparr>)"
  by (simp add: initWhispers_initialized_def initWhispers_catch_def processAudio_def
      processAudio_catch_def addDebugLog_def)

theorem failed_init_keeps_engine_witness:
  "whisper_truthy (Whisper (state_of
     (initWhispers_initialized example_runtime (Inr (WData (JObj []))) initial_state))) \<and>
   transcription (state_of (processAudio example_runtime ''a.wav'' (state_of
     (initWhispers_initialized example_runtime (Inr (WData (JObj []))) initial_state)))) =
     JStr ''Error processing audio: Whisper.transcribe is not a function'' \<and>
   transcription (state_of (processAudio example_runtime ''a.wav'' (state_of
     (initWhispers_initialized example_runtime (Inr (WData (JObj []))) initial_state)))) \<noteq>
     JStr ''Error processing audio: Whisper not initialized''"
proof -
  have msg: "not_a_function_message example_runtime ''Whisper.transcribe'' =
      ''Whisper.transcribe is not a function''"
    by (simp add: example_runtime_def)
  from failed_init_keeps_engine [of example_runtime initial_state "''a.wav''"]
  show ?thesis by (simp add: msg)
qed

subsection \<open>Recording and deletion\<close>

text \<open>
  C3, as the claim states it, fails: \<^verbatim>\<open>startRecording\<close> (lines 150--154) never calls
  \<^verbatim>\<open>setTranscription\<close>, so a transcript that is set survives the start of a recording.
\<close>

theorem startRecording_keeps_transcript:
  "transcription example_state = JStr ''hello'' \<and>
   transcription (state_of (startRecording None example_state)) = JStr ''hello''"
  by (simp add: startRecording_def example_state_def addDebugLog_def)

text \<open>
  C3, amended. In every state, \<^verbatim>\<open>startRecording\<close> leaves the transcript as it is; deleting the
  asset, when the file deletion succeeds, resets the transcript to the empty string.
\<close>

theorem transcript_reset_on_delete_only:
  "transcription (state_of (startRecording thrown s)) = transcription s \<and>
   (has_asset s \<longrightarrow> transcription (state_of (deleteAudio_complete None s)) = JStr [])"
  by (simp add: startRecording_def addDebugLog_def deleteAudio_complete_def deleteAudio_def
      deleteAudio_unlinked_def Let_def split: option.splits)

theorem transcript_reset_on_delete_only_witness:
  "has_asset example_state \<and> transcription example_state \<noteq> JStr [] \<and>
   transcription (state_of (startRecording None example_state)) = transcription example_state \<and>
   transcription (state_of (deleteAudio_complete None example_state)) = JStr []"
  using transcript_reset_on_delete_only [of None example_state]
  by (simp add: has_asset_def example_state_def)

text \<open>
  C5. With an asset present, when \<^verbatim>\<open>RNFS.unlink\<close> fails, \<^verbatim>\<open>deleteAudio\<close> changes nothing
  but the log (asset reference, transcript and duration are as before), and the log gains the
  failure entry.
\<close>

theorem deleteAudio_failure_keeps_state:
  "has_asset s \<Longrightarrow>
   deleteAudio_complete (Some error) s =
     Returned (s\<lparr>debugLogs := debugLogs s @ [''Error deleting audio file: '' @ message error]\<rparr>)"
  by (simp add: deleteAudio_complete_def deleteAudio_def deleteAudio_unlinked_def
      addDebugLog_def)

theorem deleteAudio_failure_keeps_state_witness:
  "has_asset example_state \<and>
   audioFile (state_of (deleteAudio_complete (Some (Error ''ENOENT'')) example_state)) =
     Some ''/storage/files/recording_0.wav'' \<and>
   transcription (state_of (deleteAudio_complete (Some (Error ''ENOENT'')) example_state)) =
     JStr ''hello'' \<and>
   audioDuration (state_of (deleteAudio_complete (Some (Error ''ENOENT'')) example_state)) =
     12.5 \<and>
   debugLogs (state_of (deleteAudio_complete (Some (Error ''ENOENT'')) example_state)) =
     [''Error deleting audio file: ENOENT'']"
proof -
  have h: "has_asset example_state"
    by (simp add: has_asset_def example_state_def)
  from deleteAudio_failure_keeps_state [OF h, of "Error ''ENOENT''"] h
  show ?thesis
    by (simp add: example_state_def initial_state_def)
qed

text \<open>
  C6. With an asset present, after \<^verbatim>\<open>deleteAudio\<close> whose file deletion succeeds the asset
  reference is cleared, the duration is exactly 0 and the transcript is exactly the empty string.
\<close>

theorem deleteAudio_success_resets:
  "has_asset s \<Longrightarrow>
   deleteAudio_complete None s =
     Returned (s\<lparr>audioFile := None, transcription := JStr [], audioDuration := 0,
       debugLogs := debugLogs s @ [''Audio file deleted successfully'']\<rparr>)"
  by (simp add: deleteAudio_complete_def deleteAudio_def deleteAudio_unlinked_def
      addDebugLog_def)

theorem deleteAudio_success_resets_witness:
  "has_asset example_state \<and>
   audioFile (state_of (deleteAudio_complete None example_state)) = None \<and>
   audioDuration (state_of (deleteAudio_complete None example_state)) = 0 \<and>
   transcription (state_of (deleteAudio_complete None example_state)) = JStr []"
proof -
  have h: "has_asset example_state"
    by (simp add: has_asset_def example_state_def)
  from deleteAudio_success_resets [OF h] h
  show ?thesis by simp
qed

subsection \<open>The debug log\<close>

text \<open>
  C7, as the claim states it, fails: not every operation appends an entry. \<^verbatim>\<open>stopAudio\<close>
  (lines 249--255) never calls \<^verbatim>\<open>addDebugLog\<close>. In the run below a recording is saved and
  played; then the stop button of the player is pressed and the stop callback fires, and the log
  is what it was before the press.
\<close>

theorem stopAudio_appends_nothing:
  "exec example_runtime (example_run @ [PressPlay, Settle 2 (SoundLoadReply None 12.5)])
     (mount example_runtime None) \<noteq> None \<and>
   exec example_runtime [PressStopAudio, Settle 3 SoundStopReply]
     (the (exec example_runtime (example_run @ [PressPlay, Settle 2 (SoundLoadReply None 12.5)])
        (mount example_runtime None))) \<noteq> None \<and>
   debugLogs (ui (the (exec example_runtime [PressStopAudio, Settle 3 SoundStopReply]
     (the (exec example_runtime (example_run @ [PressPlay, Settle 2 (SoundLoadReply None 12.5)])
        (mount example_runtime None)))))) =
   debugLogs (ui (the (exec example_runtime
     (example_run @ [PressPlay, Settle 2 (SoundLoadReply None 12.5)])
     (mount example_runtime None))))"
  by code_simp

text \<open>
  C7, amended. The debug log is append-only and ordered: over any sequence of steps of the
  component (presses and resumptions, in any interleaving) the log before is a prefix of the log
  after, so no entry is removed or reordered and the entries of a later step follow those of an
  earlier one. Not every operation appends an entry. The log gains at least one entry for each
  step that is a start press whose capture start does not throw or a resumption other than that
  of a failed capture stop, of a successful sound load, of the stop callback of the player and
  of \<^verbatim>\<open>setupAudioRecord\<close> when \<^verbatim>\<open>AudioRecord.init\<close> throws. A sequence made of other steps
  only appends nothing: the presses of stop, play, stop playing and delete append nothing by
  themselves, and \<^verbatim>\<open>stopAudio\<close> as a whole (press and stop callback) appends nothing.
\<close>

theorem log_append_only:
  "exec rt evs m = Some m' \<Longrightarrow>
   \<exists>ys. debugLogs (ui m') = debugLogs (ui m) @ ys \<and>
        length (filter appends_entry evs) \<le> length ys \<and>
        (list_all (\<lambda>ev. \<not> appends_entry ev) evs \<longrightarrow> ys = [])"
  using grows_exec [of rt evs m m'] unchanged_exec [of rt evs m m']
  by (auto simp: grows_def)

theorem log_append_only_witness:
  "(\<exists>m ys. exec example_runtime example_run (mount example_runtime None) = Some m \<and>
     debugLogs (ui m) = debugLogs (ui (mount example_runtime None)) @ ys \<and>
     length (filter appends_entry example_run) \<le> length ys \<and>
     length (filter appends_entry example_run) = 6) \<and>
   (\<exists>p m. exec example_runtime (example_run @ [PressPlay, Settle 2 (SoundLoadReply None 12.5)])
       (mount example_runtime None) = Some p \<and>
     exec example_runtime [PressStopAudio, Settle 3 SoundStopReply] p = Some m \<and>
     list_all (\<lambda>ev. \<not> appends_entry ev) [PressStopAudio, Settle 3 SoundStopReply] \<and>
     debugLogs (ui m) = debugLogs (ui p))"
proof -
  from example_run_defined obtain m
    where m: "exec example_runtime example_run (mount example_runtime None) = Some m" ..
  have six: "length (filter appends_entry example_run) = 6"
    by (simp add: example_run_def appends_entry_def reply_logs_def)
  have "exec example_runtime (example_run @ [PressPlay, Settle 2 (SoundLoadReply None 12.5)])
      (mount example_runtime None) \<noteq> None"
    by code_simp
  then obtain p where p: "exec example_runtime
      (example_run @ [PressPlay, Settle 2 (SoundLoadReply None 12.5)])
      (mount example_runtime None) = Some p"
    by auto
  have "exec example_runtime [PressStopAudio, Settle 3 SoundStopReply]
      (the (exec example_runtime (example_run @ [PressPlay, Settle 2 (SoundLoadReply None 12.5)])
        (mount example_runtime None))) \<noteq> None"
    by code_simp
  with p obtain m2 where
    m2: "exec example_runtime [PressStopAudio, Settle 3 SoundStopReply] p = Some m2"
    by auto
  have silent: "list_all (\<lambda>ev. \<not> appends_entry ev) [PressStopAudio, Settle 3 SoundStopReply]"
    by (simp add: appends_entry_def reply_logs_def)
  from log_append_only [OF m2] silent have "debugLogs (ui m2) = debugLogs (ui p)"
    by auto
  with log_append_only [OF m] m six p m2 silent show ?thesis
    by blast
qed

subsection \<open>The recording and processing flags\<close>

text \<open>
  C8, as the claim states it, fails: nothing keeps the start button from being pressed while a
  transcription is pending. In the run below the transcription of a saved recording is awaiting
  the engine when start is pressed again; both flags are then set.
\<close>

theorem flags_both_set:
  "exec example_runtime (example_run @ [PressStart None]) (mount example_runtime None) \<noteq> None \<and>
   isRecording (ui (the (exec example_runtime (example_run @ [PressStart None])
     (mount example_runtime None)))) \<and>
   isProcessing (ui (the (exec example_runtime (example_run @ [PressStart None])
     (mount example_runtime None))))"
  by code_simp

text \<open>
  C8, amended. In every state reached from the first render by presses and resumptions, in any
  interleaving in which start is pressed only while no stop-and-save and no transcription is in
  flight, the recording flag and the processing flag are not both set. (The code does not keep
  the user to that order.)
\<close>

theorem flags_exclusive_when_serialized:
  "exec rt evs (mount rt thrown) = Some m \<Longrightarrow> start_when_idle rt evs (mount rt thrown) \<Longrightarrow>
   \<not> (isRecording (ui m) \<and> isProcessing (ui m))"
  using exclusive_inv_exec [OF exclusive_inv_mount, where rt = rt and evs = evs and m' = m]
  by (auto dest: exclusive_inv_flags)

theorem flags_exclusive_when_serialized_witness:
  "\<exists>m. exec example_runtime example_run (mount example_runtime None) = Some m \<and>
     start_when_idle example_runtime example_run (mount example_runtime None) \<and>
     isProcessing (ui m) \<and> \<not> (isRecording (ui m) \<and> isProcessing (ui m))"
proof -
  from example_run_defined obtain m
    where m: "exec example_runtime example_run (mount example_runtime None) = Some m" ..
  have idle: "start_when_idle example_runtime example_run (mount example_runtime None)"
    by code_simp
  have "isProcessing (ui (the (exec example_runtime example_run (mount example_runtime None))))"
    by code_simp
  with m have "isProcessing (ui m)" by simp
  with flags_exclusive_when_serialized [OF m idle] m idle show ?thesis by blast
qed

subsection \<open>Failures of collaborators\<close>

text \<open>
  C9 does not hold of the code. \<^verbatim>\<open>startRecording\<close> has no \<^verbatim>\<open>try\<close>: when
  \<^verbatim>\<open>AudioRecord.start()\<close> throws, the error leaves the function with the recording flag set and
  no log entry. In \<^verbatim>\<open>stopRecording\<close> the \<^verbatim>\<open>await AudioRecord.stop()\<close> of line 159 stands
  before the \<^verbatim>\<open>try\<close> of line 163: its failure leaves the function too, unlogged. The other
  operations (\<^verbatim>\<open>processAudio\<close>, \<^verbatim>\<open>deleteAudio\<close>, the file part of \<^verbatim>\<open>stopRecording\<close>) do
  catch and log.
\<close>

theorem capture_failures_escape:
  "startRecording (Some e) s = Rejected e (s\<lparr>isRecording := True\<rparr>) \<and>
   stopRecording_stopped rt (Inl e) now s = Rejected e s \<and>
   unhandled (the (step rt (PressStart (Some e)) (mount rt None))) = [e] \<and>
   debugLogs (ui (the (step rt (PressStart (Some e)) (mount rt None)))) =
     debugLogs (ui (mount rt None))"
  by (simp add: startRecording_def stopRecording_stopped_def mount_def absorb_def
      initWhispers_def setupAudioRecord_def setupAudioRecord_init_def addDebugLog_def
      initial_state_def Let_def)

theorem capture_failures_escape_witness:
  "startRecording (Some (Error ''capture failed'')) initial_state =
     Rejected (Error ''capture failed'') (initial_state\<lparr>isRecording := True\<rparr>) \<and>
   debugLogs (state_of (startRecording (Some (Error ''capture failed'')) initial_state)) = [] \<and>
   unhandled (the (step example_runtime (PressStart (Some (Error ''capture failed'')))
     (mount example_runtime None))) = [Error ''capture failed'']"
  using capture_failures_escape [of "Error ''capture failed''" initial_state example_runtime 0]
  by (simp add: initial_state_def)

end
